theory Spec2Isabelle
  imports Complex_Main
begin

section \<open>Python values and errors\<close>

text \<open>
  The exceptions the program can raise, as values. \<open>OutsideModel\<close> is not a Python
  exception: it marks the two places where the arithmetic of the interpreter leaves the
  number model below (a power with a fractional exponent, whose value is irrational or
  complex, and a numeric literal written with characters the tokenizer never produces).
\<close>

datatype error =
    ZeroDivisionError
  | NameError
  | IndexError
  | KeyError
  | ValueError
  | TypeError
  | OutsideModel

text \<open>
  The payload \<open>n\<close> of a \<open>Num\<close> node is a Python \<open>int\<close> or a Python \<open>float\<close>. Both
  are modelled by their exact value: an unbounded integer, and a rational for a finite
  float. Rounding, overflow, infinities and NaN of the binary64 format are outside the model.
\<close>

datatype pynum = PInt int | PFloat rat

text \<open>\<open>float(n)\<close>\<close>

fun py_float :: "pynum \<Rightarrow> rat" where
  "py_float (PInt i) = of_int i"
| "py_float (PFloat q) = q"

text \<open>\<open>a + b\<close>, \<open>a - b\<close>, \<open>a * b\<close>: integer when both are, float otherwise.\<close>

fun py_add :: "pynum \<Rightarrow> pynum \<Rightarrow> pynum" where
  "py_add (PInt a) (PInt b) = PInt (a + b)"
| "py_add x y = PFloat (py_float x + py_float y)"

fun py_sub :: "pynum \<Rightarrow> pynum \<Rightarrow> pynum" where
  "py_sub (PInt a) (PInt b) = PInt (a - b)"
| "py_sub x y = PFloat (py_float x - py_float y)"

fun py_mul :: "pynum \<Rightarrow> pynum \<Rightarrow> pynum" where
  "py_mul (PInt a) (PInt b) = PInt (a * b)"
| "py_mul x y = PFloat (py_float x * py_float y)"

text \<open>\<open>a / b\<close> is true division: always a float, and it raises on a zero divisor.\<close>

definition py_truediv :: "pynum \<Rightarrow> pynum \<Rightarrow> error + pynum" where
  "py_truediv x y =
     (if py_float y = 0 then Inl ZeroDivisionError
      else Inr (PFloat (py_float x / py_float y)))"

text \<open>
  \<open>x ** y\<close> on floats. A zero base with a negative exponent raises; an exponent with an
  integral value gives a rational power; any other exponent leaves the model.
\<close>

definition float_pow :: "rat \<Rightarrow> rat \<Rightarrow> error + pynum" where
  "float_pow x y =
     (if y = 0 then Inr (PFloat 1)
      else if x = 0 then (if y < 0 then Inl ZeroDivisionError else Inr (PFloat 0))
      else if x = 1 then Inr (PFloat 1)
      else if y = of_int \<lfloor>y\<rfloor> then
        Inr (PFloat (if 0 \<le> y then x ^ nat \<lfloor>y\<rfloor> else 1 / x ^ nat (- \<lfloor>y\<rfloor>)))
      else Inl OutsideModel)"

text \<open>
  \<open>a ** b\<close>: two integers with a non-negative exponent give an integer; with a negative
  exponent Python converts both to float first.
\<close>

fun py_pow :: "pynum \<Rightarrow> pynum \<Rightarrow> error + pynum" where
  "py_pow (PInt a) (PInt b) =
     (if 0 \<le> b then Inr (PInt (a ^ nat b)) else float_pow (of_int a) (of_int b))"
| "py_pow x y = float_pow (py_float x) (py_float y)"

text \<open>\<open>a > b\<close>\<close>

definition py_gt :: "pynum \<Rightarrow> pynum \<Rightarrow> bool" where
  "py_gt x y = (py_float y < py_float x)"

section \<open>The expression tree\<close>

text \<open>
  The classes \<open>Var\<close>, \<open>Num\<close> and the five subclasses of \<open>BinOp\<close>. The constructor of
  \<open>BinOp\<close> wraps a raw number or string operand into \<open>Num\<close> or \<open>Var\<close>; here the
  children are symbols, and the one call that passes a raw number (\<open>self.right - 1\<close> in
  \<open>Pow.deriv\<close>) writes the \<open>Num\<close> out.
\<close>

datatype symbol =
    Var string
  | Num pynum
  | Add symbol symbol
  | Sub symbol symbol
  | Mul symbol symbol
  | Div symbol symbol
  | Pow' symbol symbol

text \<open>\<open>__eq__\<close> of \<open>Var\<close>, \<open>Num\<close> and \<open>BinOp\<close>.\<close>

fun sym_eq :: "symbol \<Rightarrow> symbol \<Rightarrow> bool" where
  "sym_eq (Var a) (Var b) = (a = b)"
| "sym_eq (Num a) (Num b) = (py_float a = py_float b)"
| "sym_eq (Add l r) (Add l' r') = (sym_eq l l' \<and> sym_eq r r')"
| "sym_eq (Sub l r) (Sub l' r') = (sym_eq l l' \<and> sym_eq r r')"
| "sym_eq (Mul l r) (Mul l' r') = (sym_eq l l' \<and> sym_eq r r')"
| "sym_eq (Div l r) (Div l' r') = (sym_eq l l' \<and> sym_eq r r')"
| "sym_eq (Pow' l r) (Pow' l' r') = (sym_eq l l' \<and> sym_eq r r')"
| "sym_eq _ _ = False"

text \<open>The number of nodes of a tree.\<close>

fun node_count :: "symbol \<Rightarrow> nat" where
  "node_count (Var n) = 1"
| "node_count (Num n) = 1"
| "node_count (Add l r) = 1 + node_count l + node_count r"
| "node_count (Sub l r) = 1 + node_count l + node_count r"
| "node_count (Mul l r) = 1 + node_count l + node_count r"
| "node_count (Div l r) = 1 + node_count l + node_count r"
| "node_count (Pow' l r) = 1 + node_count l + node_count r"

section \<open>Differentiation\<close>

fun deriv :: "symbol \<Rightarrow> string \<Rightarrow> symbol" where
  "deriv (Var name) wrt = (if name = wrt then Num (PInt 1) else Num (PInt 0))"
| "deriv (Num n) wrt = Num (PInt 0)"
| "deriv (Add left right) wrt = Add (deriv left wrt) (deriv right wrt)"
| "deriv (Sub left right) wrt = Sub (deriv left wrt) (deriv right wrt)"
| "deriv (Mul left right) wrt =
     Add (Mul left (deriv right wrt)) (Mul right (deriv left wrt))"
| "deriv (Div left right) wrt =
     Div (Sub (Mul right (deriv left wrt)) (Mul left (deriv right wrt)))
         (Mul right right)"
| "deriv (Pow' left right) wrt =
     Mul (Mul right (Pow' left (Sub right (Num (PInt 1))))) (deriv left wrt)"

section \<open>Simplification\<close>

text \<open>
  \<open>simplify\<close> of \<open>Symbol\<close> (inherited by \<open>Var\<close> and \<open>Num\<close>) and of each operator class.
  An exception raised while a child is simplified, or by the folding of two numbers,
  leaves the method at once.
\<close>

fun simplify :: "symbol \<Rightarrow> error + symbol" where
  "simplify (Var n) = Inr (Var n)"
| "simplify (Num n) = Inr (Num n)"
| "simplify (Add left right) =
     (case simplify left of Inl e \<Rightarrow> Inl e | Inr l_simpl \<Rightarrow>
      (case simplify right of Inl e \<Rightarrow> Inl e | Inr r_simpl \<Rightarrow>
        if sym_eq l_simpl (Num (PInt 0)) \<and> sym_eq r_simpl (Num (PInt 0))
          then Inr (Num (PInt 0))
        else if sym_eq l_simpl (Num (PInt 0)) then Inr r_simpl
        else if sym_eq r_simpl (Num (PInt 0)) then Inr l_simpl
        else (case (l_simpl, r_simpl) of
                (Num a, Num b) \<Rightarrow> Inr (Num (py_add a b))
              | _ \<Rightarrow> Inr (Add l_simpl r_simpl))))"
| "simplify (Sub left right) =
     (case simplify left of Inl e \<Rightarrow> Inl e | Inr l_simpl \<Rightarrow>
      (case simplify right of Inl e \<Rightarrow> Inl e | Inr r_simpl \<Rightarrow>
        if sym_eq l_simpl (Num (PInt 0)) \<and> sym_eq r_simpl (Num (PInt 0))
          then Inr (Num (PInt 0))
        else if sym_eq r_simpl (Num (PInt 0)) then simplify left
        else (case (l_simpl, r_simpl) of
                (Num a, Num b) \<Rightarrow> Inr (Num (py_sub a b))
              | _ \<Rightarrow> Inr (Sub l_simpl r_simpl))))"
| "simplify (Mul left right) =
     (case simplify left of Inl e \<Rightarrow> Inl e | Inr l_simpl \<Rightarrow>
      (case simplify right of Inl e \<Rightarrow> Inl e | Inr r_simpl \<Rightarrow>
        if sym_eq l_simpl (Num (PInt 0)) \<or> sym_eq r_simpl (Num (PInt 0))
          then Inr (Num (PInt 0))
        else if sym_eq l_simpl (Num (PInt 1)) then simplify right
        else if sym_eq r_simpl (Num (PInt 1)) then simplify left
        else (case (l_simpl, r_simpl) of
                (Num a, Num b) \<Rightarrow> Inr (Num (py_mul a b))
              | _ \<Rightarrow> Inr (Mul l_simpl r_simpl))))"
| "simplify (Div left right) =
     (case simplify left of Inl e \<Rightarrow> Inl e | Inr l_simpl \<Rightarrow>
      (case simplify right of Inl e \<Rightarrow> Inl e | Inr r_simpl \<Rightarrow>
        if sym_eq l_simpl (Num (PInt 0)) then Inr (Num (PInt 0))
        else if sym_eq r_simpl (Num (PInt 1)) then simplify left
        else (case (l_simpl, r_simpl) of
                (Num a, Num b) \<Rightarrow>
                  (case py_truediv a b of Inl e \<Rightarrow> Inl e | Inr q \<Rightarrow> Inr (Num q))
              | _ \<Rightarrow> Inr (Div l_simpl r_simpl))))"
| "simplify (Pow' left right) =
     (case simplify left of Inl e \<Rightarrow> Inl e | Inr l_simpl \<Rightarrow>
      (case simplify right of Inl e \<Rightarrow> Inl e | Inr r_simpl \<Rightarrow>
        if sym_eq r_simpl (Num (PInt 0)) then Inr (Num (PInt 1))
        else if sym_eq r_simpl (Num (PInt 1)) then Inr l_simpl
        else if sym_eq l_simpl (Num (PInt 0)) \<and>
                (case r_simpl of Var v \<Rightarrow> True
                               | Num b \<Rightarrow> py_gt b (PInt 0)
                               | _ \<Rightarrow> False)
          then Inr (Num (PInt 0))
        else (case (l_simpl, r_simpl) of
                (Num a, Num b) \<Rightarrow>
                  (case py_pow a b of Inl e \<Rightarrow> Inl e | Inr p \<Rightarrow> Inr (Num p))
              | _ \<Rightarrow> Inr (Pow' l_simpl r_simpl))))"

section \<open>Rendering\<close>













section \<open>Evaluation\<close>



section \<open>Tokenizer\<close>

text \<open>
  \<open>str.isdigit\<close> and \<open>str.isalpha\<close>, on ASCII characters (Python also counts the
  digits and letters of other scripts).
\<close>

definition isdigit :: "char \<Rightarrow> bool" where
  "isdigit c = (c \<in> set ''0123456789'')"

definition isalpha_char :: "char \<Rightarrow> bool" where
  "isalpha_char c =
     (c \<in> set ''abcdefghijklmnopqrstuvwxyzABCDEFGHIJKLMNOPQRSTUVWXYZ'')"

definition isalpha :: "string \<Rightarrow> bool" where
  "isalpha s = (s \<noteq> [] \<and> list_all isalpha_char s)"

text \<open>
  The loop of \<open>tokenize\<close> over the characters of \<open>inp_str + "|"\<close>. The first argument is
  what is left of that string, so \<open>inp_str[i + 1]\<close> is the character after the current
  one unless that one is the appended bar, where the index is out of range.
\<close>

fun tokenize_loop :: "string \<Rightarrow> string list \<Rightarrow> string \<Rightarrow> error + string list" where
  "tokenize_loop [] tokenized num_add = Inr tokenized"
| "tokenize_loop (char # rest) tokenized num_add =
     (if char = CHR '' '' \<or> char = CHR '')'' then tokenize_loop rest tokenized num_add
      else if isdigit char \<or> char = CHR ''.'' then
        tokenize_loop rest tokenized (num_add @ [char])
      else if char = CHR ''-'' then
        (case rest of
           nxt # _ # _ \<Rightarrow>
             if isdigit nxt \<or> nxt = CHR ''.'' then
               tokenize_loop rest tokenized (num_add @ [char])
             else
               tokenize_loop rest
                 ((if num_add \<noteq> [] then tokenized @ [num_add] else tokenized) @ [[char]]) []
         | _ \<Rightarrow> Inl IndexError)
      else
        tokenize_loop rest
          ((if num_add \<noteq> [] then tokenized @ [num_add] else tokenized) @ [[char]]) [])"

text \<open>\<open>case\<close>: drop the last token, then a leading empty token.\<close>

definition case' :: "string list \<Rightarrow> error + string list" where
  "case' tokenized =
     (if tokenized = [] then Inl IndexError
      else let popped = butlast tokenized
           in if popped = [] then Inl IndexError
              else if hd popped = [] then Inr (tl popped)
              else Inr popped)"

definition tokenize :: "string \<Rightarrow> error + string list" where
  "tokenize inp_str =
     (case tokenize_loop (inp_str @ ''|'') [] [] of
        Inl e \<Rightarrow> Inl e
      | Inr tokenized \<Rightarrow> case' tokenized)"

section \<open>Parser\<close>

text \<open>
  \<open>float(token)\<close> for a token made of digits, points and minus signs, the only
  characters the tokenizer puts into a number: an optional sign, then digits with at
  most one point and at least one digit. Python's \<open>float\<close> also reads exponents,
  underscores, blanks and the names of the infinities and NaN; a token with any other
  character leaves the model.
\<close>

definition nat_of_digits :: "string \<Rightarrow> nat" where
  "nat_of_digits ds = foldl (\<lambda>acc c. 10 * acc + (of_char c - 48)) 0 ds"

definition float_of_str :: "string \<Rightarrow> error + pynum" where
  "float_of_str token =
     (if \<not> list_all (\<lambda>c. isdigit c \<or> c = CHR ''.'' \<or> c = CHR ''-'') token
        then Inl OutsideModel
      else
        let neg = (token \<noteq> [] \<and> hd token = CHR ''-'');
            body = (if neg then tl token else token);
            ip = takeWhile isdigit body;
            rest = dropWhile isdigit body;
            fp = tl rest;
            sign = (if neg then - 1 else 1)
        in if rest = [] then
             (if ip = [] then Inl ValueError
              else Inr (PFloat (sign * of_nat (nat_of_digits ip))))
           else if hd rest = CHR ''.'' \<and> list_all isdigit fp \<and> (ip \<noteq> [] \<or> fp \<noteq> []) then
             Inr (PFloat (sign * (of_nat (nat_of_digits ip)
                                  + of_nat (nat_of_digits fp) / 10 ^ length fp)))
           else Inl ValueError)"

text \<open>The dictionary \<open>symbol_dict_class\<close> of \<open>parse\<close>.\<close>

definition symbol_dict_class :: "string \<Rightarrow> (symbol \<Rightarrow> symbol \<Rightarrow> symbol) option" where
  "symbol_dict_class operator =
     (if operator = ''+'' then Some Add
      else if operator = ''-'' then Some Sub
      else if operator = ''*'' then Some Mul
      else if operator = ''/'' then Some Div
      else if operator = ''**'' then Some Pow'
      else None)"

text \<open>
  The inner function \<open>parse_expression\<close>. Reading \<open>tokens[index]\<close> or \<open>token[0]\<close> out of
  range raises \<open>IndexError\<close>. For a token that is no number, no name and no opening
  parenthesis the Python function returns \<open>None\<close>, and every caller unpacks the result
  into two names at once, which raises \<open>TypeError\<close>.
\<close>

function parse_expression :: "string list \<Rightarrow> nat \<Rightarrow> error + (symbol \<times> nat)" where
  "parse_expression tokens index =
     (if length tokens \<le> index then Inl IndexError
      else let token = tokens ! index in
        if token = [] then Inl IndexError
        else if hd token = CHR ''-'' \<or> isdigit (hd token) \<or> hd token = CHR ''.'' then
          (case float_of_str token of
             Inl e \<Rightarrow> Inl e
           | Inr v \<Rightarrow> Inr (Num v, index + 1))
        else if isalpha token then Inr (Var token, index + 1)
        else if token = ''('' then
          (case parse_expression tokens (index + 1) of
             Inl e \<Rightarrow> Inl e
           | Inr (left_exp, opp_ind) \<Rightarrow>
               if length tokens \<le> opp_ind then Inl IndexError
               else let operator = tokens ! opp_ind in
                 (case parse_expression tokens (opp_ind + 1) of
                    Inl e \<Rightarrow> Inl e
                  | Inr (right_exp, right_paren) \<Rightarrow>
                      (case symbol_dict_class operator of
                         None \<Rightarrow> Inl KeyError
                       | Some cls \<Rightarrow> Inr (cls left_exp right_exp, right_paren))))
        else Inl TypeError)"
  by pat_completeness auto

termination parse_expression
proof -
  have mono: "index < j"
    if "parse_expression_dom (tokens, index)" and "parse_expression tokens index = Inr (e, j)"
    for tokens index e j
    using that
  proof (induction tokens index arbitrary: e j rule: parse_expression.pinduct)
    case (1 tokens index)
    from "1.prems" "1.hyps" "1.IH" show ?case
      by (subst (asm) parse_expression.psimps)
         (fastforce simp: Let_def split: if_splits sum.splits option.splits prod.splits)+
  qed
  show ?thesis
    by (relation "measure (\<lambda>(tokens, index). length tokens - index)")
       (auto dest: mono)
qed

text \<open>
  \<open>parse\<close>. It also prints the parsed expression; the printing has no effect on the
  result and is left out.
\<close>

definition parse :: "string list \<Rightarrow> error + symbol" where
  "parse tokens =
     (case parse_expression tokens 0 of
        Inl e \<Rightarrow> Inl e
      | Inr (parsed_expression, next_index) \<Rightarrow> Inr parsed_expression)"

text \<open>
  The loop of \<open>expression\<close> that fuses two neighbouring \<open>*\<close> tokens into \<open>**\<close>.
  \<open>tokenized_lst[i + 1]\<close> past the end raises \<open>IndexError\<close>; \<open>tokenized_lst[i - 1]\<close> at
  \<open>i = 0\<close> is Python's index \<open>-1\<close>, the last token.
\<close>

function expression_loop :: "string list \<Rightarrow> nat \<Rightarrow> string list \<Rightarrow> error + string list" where
  "expression_loop tokenized_lst i new_tok_list =
     (if length tokenized_lst \<le> i then Inr new_tok_list
      else let token = tokenized_lst ! i in
        if token = ''*'' then
          (if length tokenized_lst \<le> i + 1 then Inl IndexError
           else if tokenized_lst ! (i + 1) = ''*'' then
             expression_loop tokenized_lst (i + 1) new_tok_list
           else if (if i = 0 then last tokenized_lst else tokenized_lst ! (i - 1)) = ''*'' then
             expression_loop tokenized_lst (i + 1) (new_tok_list @ [''**''])
           else expression_loop tokenized_lst (i + 1) (new_tok_list @ [token]))
        else expression_loop tokenized_lst (i + 1) (new_tok_list @ [token]))"
  by pat_completeness auto
termination
  by (relation "measure (\<lambda>(tokenized_lst, i, new_tok_list). length tokenized_lst - i)") auto

definition expression :: "string \<Rightarrow> error + symbol" where
  "expression expression_str =
     (case tokenize expression_str of
        Inl e \<Rightarrow> Inl e
      | Inr tokenized_lst \<Rightarrow>
          (case expression_loop tokenized_lst 0 [] of
             Inl e \<Rightarrow> Inl e
           | Inr new_tok_list \<Rightarrow> parse new_tok_list))"

section \<open>Notions used to state the properties\<close>






text \<open>
  The grammar of the parser, \<open>expr := NUMBER | VARNAME | "(" expr OPERATOR expr ")"\<close>,
  over the token stream, in which the tokenizer has dropped the closing parentheses:
  \<open>complete_expr ts e\<close> says that the tokens \<open>ts\<close> are exactly one expression, with
  tree \<open>e\<close>.
\<close>

inductive complete_expr :: "string list \<Rightarrow> symbol \<Rightarrow> bool" where
  number: "t \<noteq> [] \<Longrightarrow> hd t = CHR ''-'' \<or> isdigit (hd t) \<or> hd t = CHR ''.''
             \<Longrightarrow> float_of_str t = Inr v \<Longrightarrow> complete_expr [t] (Num v)"
| name: "isalpha t \<Longrightarrow> complete_expr [t] (Var t)"
| binop: "complete_expr ls l \<Longrightarrow> complete_expr rs r
             \<Longrightarrow> symbol_dict_class operator = Some cls
             \<Longrightarrow> complete_expr (''('' # ls @ operator # rs) (cls l r)"

code_pred complete_expr .

declare parse_expression.simps [simp del]
declare expression_loop.simps [simp del]

section \<open>Properties\<close>

subsection \<open>The equality of symbols\<close>



subsection \<open>Simplification\<close>









text \<open>
  Claim C7. For all expressions \<open>l\<close> and \<open>r\<close> whose simplifications return trees: if the
  simplified \<open>l\<close> equals \<open>Num(0)\<close>, then \<open>simplify(Div(l, r))\<close> returns \<open>Num(0)\<close>, whatever
  \<open>r\<close> is, also when the simplified \<open>r\<close> equals \<open>Num(0)\<close> too.
\<close>

theorem simplify_Div_zero_left:
  assumes "simplify l = Inr l_simpl" and "simplify r = Inr r_simpl"
    and "sym_eq l_simpl (Num (PInt 0))"
  shows "simplify (Div l r) = Inr (Num (PInt 0))"
  using assms by simp

theorem simplify_Div_zero_left_witness:
  "simplify (Mul (Var ''x'') (Num (PFloat 0))) = Inr (Num (PInt 0))
   \<and> simplify (Sub (Num (PInt 2)) (Num (PInt 2))) = Inr (Num (PInt 0))
   \<and> sym_eq (Num (PInt 0)) (Num (PInt 0))
   \<and> simplify (Div (Mul (Var ''x'') (Num (PFloat 0))) (Sub (Num (PInt 2)) (Num (PInt 2))))
       = Inr (Num (PInt 0))"
proof -
  have l: "simplify (Mul (Var ''x'') (Num (PFloat 0))) = Inr (Num (PInt 0))"
    by simp
  have r: "simplify (Sub (Num (PInt 2)) (Num (PInt 2))) = Inr (Num (PInt 0))"
    by simp
  have z: "sym_eq (Num (PInt 0)) (Num (PInt 0))"
    by simp
  from simplify_Div_zero_left [OF l r z] l r z show ?thesis
    by blast
qed

text \<open>
  Claim C8. For every expression \<open>e\<close> whose simplification returns a tree, that tree has
  at most as many nodes as \<open>e\<close>.
\<close>

theorem simplify_node_count_le:
  assumes "simplify e = Inr s"
  shows "node_count s \<le> node_count e"
  using assms
proof (induction e arbitrary: s)
  case (Add l r)
  then show ?case
    by (auto split: sum.splits if_splits symbol.splits)
next
  case (Sub l r)
  then show ?case
    by (auto split: sum.splits if_splits symbol.splits)
next
  case (Mul l r)
  then show ?case
    by (auto split: sum.splits if_splits symbol.splits)
next
  case (Div l r)
  then show ?case
    by (auto split: sum.splits if_splits symbol.splits)
next
  case (Pow' l r)
  then show ?case
    by (auto split: sum.splits if_splits symbol.splits)
qed auto

theorem simplify_node_count_le_witness:
  "simplify (Add (Mul (Var ''x'') (Num (PInt 1))) (Sub (Num (PInt 3)) (Num (PInt 3))))
     = Inr (Var ''x'')
   \<and> node_count (Var ''x'')
     \<le> node_count (Add (Mul (Var ''x'') (Num (PInt 1))) (Sub (Num (PInt 3)) (Num (PInt 3))))"
proof -
  have h: "simplify (Add (Mul (Var ''x'') (Num (PInt 1))) (Sub (Num (PInt 3)) (Num (PInt 3))))
             = Inr (Var ''x'')"
    by simp
  from simplify_node_count_le [OF h] h show ?thesis
    by blast
qed

subsection \<open>Differentiation\<close>

text \<open>
  Claim C9. For all expressions \<open>l\<close>, \<open>r\<close> and every variable name \<open>wrt\<close>, the
  derivative of \<open>Pow(l, r)\<close> is \<open>Mul(Mul(r, Pow(l, Sub(r, Num(1)))), deriv(l))\<close>,
  whether or not \<open>r\<close> depends on \<open>wrt\<close>.
\<close>

theorem deriv_Pow_constant_exponent_rule:
  "deriv (Pow' l r) wrt = Mul (Mul r (Pow' l (Sub r (Num (PInt 1))))) (deriv l wrt)"
  by simp

subsection \<open>Evaluation\<close>






















subsection \<open>Parsing\<close>

lemma isalpha_char_not_special:
  assumes "isalpha_char c"
  shows "c \<noteq> CHR '' ''" "c \<noteq> CHR '')''" "c \<noteq> CHR ''.''" "c \<noteq> CHR ''-''"
    "c \<noteq> CHR ''*''" "\<not> isdigit c"
  using assms by (auto simp: isalpha_char_def isdigit_def)

lemma isalpha_hd:
  assumes "isalpha t"
  shows "t \<noteq> []" "\<not> (hd t = CHR ''-'' \<or> isdigit (hd t) \<or> hd t = CHR ''.'')"
proof -
  from assms show "t \<noteq> []" by (simp add: isalpha_def)
  then obtain c cs where "t = c # cs" by (cases t) auto
  with assms have "isalpha_char c" by (simp add: isalpha_def)
  then show "\<not> (hd t = CHR ''-'' \<or> isdigit (hd t) \<or> hd t = CHR ''.'')"
    using \<open>t = c # cs\<close> isalpha_char_not_special [of c] by auto
qed

lemma parse_expression_complete:
  "complete_expr ts e \<Longrightarrow>
     parse_expression (pre @ ts @ rest) (length pre) = Inr (e, length pre + length ts)"
proof (induction arbitrary: pre rest rule: complete_expr.induct)
  case (number t v)
  then show ?case
    by (subst parse_expression.simps) (simp add: nth_append)
next
  case (name t)
  then show ?case
    using isalpha_hd [of t] by (subst parse_expression.simps) (simp add: nth_append)
next
  case (binop ls l rs r operator cls)
  have L: "parse_expression (pre @ (''('' # ls @ operator # rs) @ rest) (length pre + 1)
             = Inr (l, length pre + 1 + length ls)"
    using binop.IH(1) [of "pre @ [''('']" "operator # rs @ rest"] by simp
  have R: "parse_expression (pre @ (''('' # ls @ operator # rs) @ rest)
             (length pre + 1 + length ls + 1)
             = Inr (r, length pre + 1 + length ls + 1 + length rs)"
    using binop.IH(2) [of "pre @ ''('' # ls @ [operator]" rest] by simp
  have op: "(pre @ (''('' # ls @ operator # rs) @ rest) ! (length pre + 1 + length ls) = operator"
    by (simp add: nth_append)
  have par: "\<not> (hd ''('' = CHR ''-'' \<or> isdigit (hd ''('') \<or> hd ''('' = CHR ''.'')"
    "\<not> isalpha ''(''"
    by (simp_all add: isdigit_def isalpha_def isalpha_char_def)
  show ?case
    using L R op par binop.hyps(3)
    by (subst parse_expression.simps) (simp add: nth_append Let_def)
qed

lemma parse_expression_append:
  "parse_expression ts i = Inr (e, j) \<Longrightarrow> parse_expression (ts @ rest) i = Inr (e, j)"
proof (induction ts i arbitrary: e j rule: parse_expression.induct)
  case (1 tokens index)
  from "1.prems" have lt: "index < length tokens"
    by (subst (asm) parse_expression.simps) (simp split: if_splits)
  let ?token = "tokens ! index"
  have tok: "(tokens @ rest) ! index = ?token"
    using lt by (simp add: nth_append)
  show ?case
  proof (cases "?token = ''(''")
    case False
    with "1.prems" lt tok show ?thesis
      by (subst (asm) parse_expression.simps, subst parse_expression.simps)
         (auto simp: Let_def split: if_splits sum.splits)
  next
    case True
    have nn: "\<not> (hd ?token = CHR ''-'' \<or> isdigit (hd ?token) \<or> hd ?token = CHR ''.'')"
      "\<not> isalpha ?token" "?token \<noteq> []"
      using True by (simp_all add: isdigit_def isalpha_def isalpha_char_def)
    from "1.prems" obtain l oi where
      L: "parse_expression tokens (index + 1) = Inr (l, oi)"
      using lt True nn
      by (subst (asm) parse_expression.simps) (auto simp: Let_def split: if_splits sum.splits)
    from "1.prems" L have oi: "oi < length tokens"
      using lt True nn
      by (subst (asm) parse_expression.simps) (auto simp: Let_def split: if_splits sum.splits)
    from "1.prems" L oi obtain r rp where
      R: "parse_expression tokens (oi + 1) = Inr (r, rp)"
      using lt True nn
      by (subst (asm) parse_expression.simps) (auto simp: Let_def split: if_splits sum.splits)
    have res: "(case symbol_dict_class (tokens ! oi) of
                  None \<Rightarrow> Inl KeyError
                | Some cls \<Rightarrow> Inr (cls l r, rp)) = Inr (e, j)"
      using "1.prems" L R oi lt True nn
      by (subst (asm) parse_expression.simps) (simp add: Let_def)
    have L': "parse_expression (tokens @ rest) (index + 1) = Inr (l, oi)"
      by (rule "1.IH"(1) [OF _ refl nn(3) nn(1) nn(2) True L]) (use lt in simp)
    have R': "parse_expression (tokens @ rest) (oi + 1) = Inr (r, rp)"
      by (rule "1.IH"(2) [OF _ refl nn(3) nn(1) nn(2) True L refl _ refl R])
         (use lt oi in simp_all)
    show ?thesis
      using L' R' res oi lt True nn tok
      by (subst parse_expression.simps) (simp add: Let_def nth_append)
  qed
qed

text \<open>
  Claim C5, as stated: \<open>expression\<close> on \<open>(2 * (5 + 3) ** 1)\<close> returns
  \<open>Mul(Num(2), Pow(Add(Num(5), Num(3)), Num(1)))\<close>. The tree it returns is not equal to
  that one: it has no \<open>Pow\<close> node.
\<close>

theorem parsed_example_has_no_Pow:
  "expression ''(2 * (5 + 3) ** 1)''
     = Inr (Mul (Num (PFloat 2)) (Add (Num (PFloat 5)) (Num (PFloat 3))))
   \<and> \<not> sym_eq (Mul (Num (PFloat 2)) (Add (Num (PFloat 5)) (Num (PFloat 3))))
               (Mul (Num (PInt 2)) (Pow' (Add (Num (PInt 5)) (Num (PInt 3))) (Num (PInt 1))))"
  by code_simp

text \<open>
  Claim C5, amended: on \<open>(2 * (5 + 3) ** 1)\<close> the tokens after the fusion of \<open>**\<close> are
  \<open>( 2 * ( 5 + 3 ** 1\<close>, and \<open>expression\<close> returns \<open>Mul(Num(2), Add(Num(5), Num(3)))\<close>: the
  parser has a complete expression after the token \<open>3\<close> and never reads \<open>** 1\<close>.
\<close>

theorem expression_example:
  "tokenize ''(2 * (5 + 3) ** 1)''
     = Inr [''('', ''2'', ''*'', ''('', ''5'', ''+'', ''3'', ''*'', ''*'', ''1'']
   \<and> expression_loop [''('', ''2'', ''*'', ''('', ''5'', ''+'', ''3'', ''*'', ''*'', ''1''] 0 []
     = Inr [''('', ''2'', ''*'', ''('', ''5'', ''+'', ''3'', ''**'', ''1'']
   \<and> parse_expression [''('', ''2'', ''*'', ''('', ''5'', ''+'', ''3'', ''**'', ''1''] 0
     = Inr (Mul (Num (PFloat 2)) (Add (Num (PFloat 5)) (Num (PFloat 3))), 7)
   \<and> expression ''(2 * (5 + 3) ** 1)''
     = Inr (Mul (Num (PFloat 2)) (Add (Num (PFloat 5)) (Num (PFloat 3))))"
  by code_simp

text \<open>
  Claim C10. When a token sequence is a complete expression of the grammar, or \<open>parse\<close>
  returns an expression on it, then on that sequence followed by any further tokens
  \<open>parse\<close> returns the expression of the prefix and raises nothing: the tokens after a
  complete expression are ignored.
\<close>

theorem parse_ignores_trailing_tokens:
  assumes "complete_expr tokens e \<or> parse tokens = Inr e"
  shows "parse (tokens @ trailing) = Inr e"
  using assms
proof
  assume "complete_expr tokens e"
  from parse_expression_complete [OF this, of "[]" trailing] show ?thesis
    by (simp add: parse_def)
next
  assume "parse tokens = Inr e"
  then obtain j where "parse_expression tokens 0 = Inr (e, j)"
    by (auto simp: parse_def split: sum.splits)
  then have "parse_expression (tokens @ trailing) 0 = Inr (e, j)"
    by (rule parse_expression_append)
  then show ?thesis
    by (simp add: parse_def)
qed

theorem parse_ignores_trailing_tokens_witness:
  "tokenize ''1 - 2'' = Inr ([''1''] @ [''-'', ''2''])
   \<and> complete_expr [''1''] (Num (PFloat 1))
   \<and> parse ([''1''] @ [''-'', ''2'']) = Inr (Num (PFloat 1))"
proof -
  have t: "tokenize ''1 - 2'' = Inr ([''1''] @ [''-'', ''2''])"
    by code_simp
  have f: "float_of_str ''1'' = Inr (PFloat 1)"
    by code_simp
  have h: "complete_expr [''1''] (Num (PFloat 1))"
    by (rule complete_expr.number [OF _ _ f]) (simp_all add: isdigit_def)
  from parse_ignores_trailing_tokens [OF disjI1 [OF h], of "[''-'', ''2'']"] t h show ?thesis
    by blast
qed

subsection \<open>Rendering and parsing back\<close>







lemma tokenize_loop_bar: "tokenize_loop ''|'' tokenized num_add = Inr ((if num_add \<noteq> [] then tokenized @ [num_add] else tokenized) @ [''|''])"
  by (simp add: isdigit_def)


















end
